theory Spec2Isabelle
  imports Main
begin

section \<open>Speech check: the recognition wrappers, the dispatcher and the export step\<close>

text \<open>
  A shallow embedding of \<^verbatim>\<open>src/Speech_check.py\<close>: the class
  \<^verbatim>\<open>SpeechRecognitionApp\<close> with its two backend wrappers,
  \<^verbatim>\<open>transcribe_speech\<close> and \<^verbatim>\<open>create_download_file\<close>.

  The program calls three collaborators it does not define: the
  \<^verbatim>\<open>speech_recognition\<close> library (microphone, listening, the two recognisers),
  Streamlit (\<^verbatim>\<open>st.info\<close>, \<^verbatim>\<open>st.warning\<close>) and \<^verbatim>\<open>tempfile\<close>.
  What they answer is a parameter of the model (the record \<open>env\<close>); what the program
  does to them (messages shown, files written) and to its own field
  \<^verbatim>\<open>last_transcription\<close> is recorded in the state (the record \<open>app\<close>).
\<close>

subsection \<open>Exceptions\<close>

text \<open>
  The three exception classes of the library that the source names, and one constructor
  for every other subclass of \<^verbatim>\<open>Exception\<close>. None of the three named classes is
  a subclass of another. The argument is what \<^verbatim>\<open>str(e)\<close> gives. Exceptions that
  are not subclasses of \<^verbatim>\<open>Exception\<close> (\<^verbatim>\<open>KeyboardInterrupt\<close>,
  \<^verbatim>\<open>SystemExit\<close>) are not modelled.
\<close>

datatype exn =
    UnknownValueError string
  | RequestError string
  | WaitTimeoutError string
  | OtherException string

fun str_exn :: "exn \<Rightarrow> string" where
  "str_exn (UnknownValueError m) = m"
| "str_exn (RequestError m) = m"
| "str_exn (WaitTimeoutError m) = m"
| "str_exn (OtherException m) = m"

subsection \<open>The collaborators\<close>

text \<open>
  An audio sample is opaque to the program; here it is the list of its bytes, so that the
  empty sample is \<open>[]\<close>.
\<close>

type_synonym audio = "nat list"

text \<open>
  \<^item> \<open>microphone_enter\<close>: \<^verbatim>\<open>with sr.Microphone() as source\<close>, \<open>Some e\<close> when
    opening the device raises \<open>e\<close>;
  \<^item> \<open>adjust_for_ambient_noise\<close>: the calibration call, \<open>Some e\<close> when it raises;
  \<^item> \<open>listen\<close>: \<^verbatim>\<open>recognizer.listen(source, timeout=, phrase_time_limit=)\<close>;
  \<^item> \<open>recognize_google\<close>: \<^verbatim>\<open>recognizer.recognize_google(audio, language=)\<close>;
  \<^item> \<open>recognize_sphinx\<close>: \<^verbatim>\<open>recognizer.recognize_sphinx(audio, language)\<close>, whose
    second parameter has the default \<^verbatim>\<open>"en-US"\<close> in the library;
  \<^item> \<open>temp_name\<close>: the path \<^verbatim>\<open>tempfile.NamedTemporaryFile\<close> chooses between the
    prefix and the suffix it is given.
  Each is a function of its arguments only: a deterministic stub.
\<close>

record env =
  microphone_enter :: "exn option"
  adjust_for_ambient_noise :: "exn option"
  listen :: "int \<Rightarrow> int \<Rightarrow> exn + audio"
  recognize_google :: "audio \<Rightarrow> string \<Rightarrow> exn + string"
  recognize_sphinx :: "audio \<Rightarrow> string \<Rightarrow> exn + string"
  temp_name :: "string \<Rightarrow> string \<Rightarrow> string"

subsection \<open>The state\<close>

datatype ui_event = Info string | Warning string

text \<open>
  \<open>last_transcription\<close> is the field of the object; \<open>ui\<close> the Streamlit messages
  emitted so far, oldest first; \<open>files\<close> the text files on disk, by path.
\<close>

record app =
  last_transcription :: string
  ui :: "ui_event list"
  files :: "string \<rightharpoonup> string"

text \<open>\<^verbatim>\<open>__init__\<close>: the field starts empty.\<close>

definition init :: "app" where
  "init = \<lparr>last_transcription = [], ui = [], files = Map.empty\<rparr>"

definition st_info :: "app \<Rightarrow> string \<Rightarrow> app" where
  "st_info s msg = s\<lparr>ui := ui s @ [Info msg]\<rparr>"

definition st_warning :: "app \<Rightarrow> string \<Rightarrow> app" where
  "st_warning s msg = s\<lparr>ui := ui s @ [Warning msg]\<rparr>"

text \<open>Python's \<^verbatim>\<open>d.get(k, default)\<close>.\<close>

definition dict_get :: "('k \<rightharpoonup> 'v) \<Rightarrow> 'k \<Rightarrow> 'v \<Rightarrow> 'v" where
  "dict_get d k dflt = (case d k of None \<Rightarrow> dflt | Some v \<Rightarrow> v)"

subsection \<open>The backend wrappers\<close>

text \<open>
  \<^verbatim>\<open>recognize_with_google\<close> (lines 26-33): the text, or one of two messages; any
  other exception leaves the wrapper.
\<close>

definition recognize_with_google :: "env \<Rightarrow> audio \<Rightarrow> string \<Rightarrow> exn + string" where
  "recognize_with_google e audio language =
     (case recognize_google e audio language of
        Inr text \<Rightarrow> Inr text
      | Inl (UnknownValueError m) \<Rightarrow>
          Inr ''Google Speech Recognition could not understand the audio''
      | Inl (RequestError m) \<Rightarrow>
          Inr (''Could not request results from Google Speech Recognition service; '' @ m)
      | Inl x \<Rightarrow> Inl x)"

text \<open>
  \<^verbatim>\<open>recognize_with_sphinx\<close> (lines 35-42): the library is called without a language,
  so with its default.
\<close>

definition recognize_with_sphinx :: "env \<Rightarrow> audio \<Rightarrow> string \<Rightarrow> exn + string" where
  "recognize_with_sphinx e audio language =
     (case recognize_sphinx e audio ''en-US'' of
        Inr text \<Rightarrow> Inr text
      | Inl (UnknownValueError m) \<Rightarrow> Inr ''Sphinx could not understand the audio''
      | Inl (RequestError m) \<Rightarrow> Inr (''Sphinx error: '' @ m)
      | Inl x \<Rightarrow> Inl x)"

subsection \<open>The two tables of \<^verbatim>\<open>__init__\<close>\<close>

definition recognition_apis :: "env \<Rightarrow> (string \<rightharpoonup> (audio \<Rightarrow> string \<Rightarrow> exn + string))" where
  "recognition_apis e =
     [''Google Speech Recognition'' \<mapsto> recognize_with_google e,
      ''Sphinx (Offline)'' \<mapsto> recognize_with_sphinx e]"

definition languages :: "string \<rightharpoonup> string" where
  "languages =
     [''English (US)'' \<mapsto> ''en-US'',
      ''Spanish'' \<mapsto> ''es-ES'',
      ''French'' \<mapsto> ''fr-FR'',
      ''German'' \<mapsto> ''de-DE'',
      ''Chinese (Mandarin)'' \<mapsto> ''zh-CN'']"

subsection \<open>\<^verbatim>\<open>transcribe_speech\<close>\<close>

text \<open>
  Lines 56-65, the part of the \<^verbatim>\<open>try\<close> body after the audio is captured: the
  message, the two lookups with their defaults, the call, the store and the return. An
  exception of the wrapper leaves before the store.
\<close>

definition dispatch :: "env \<Rightarrow> app \<Rightarrow> string \<Rightarrow> string \<Rightarrow> audio \<Rightarrow> (exn + string) \<times> app" where
  "dispatch e s api_choice language_choice audio =
     (let s1 = st_info s ''Processing audio...'';
          recognition_method = dict_get (recognition_apis e) api_choice (recognize_with_google e)
      in case recognition_method audio (dict_get languages language_choice ''en-US'') of
           Inl x \<Rightarrow> (Inl x, s1)
         | Inr text \<Rightarrow> (Inr text, s1\<lparr>last_transcription := text\<rparr>))"

text \<open>
  Lines 67-70, the two handlers of the \<^verbatim>\<open>try\<close>, in the source's order.
\<close>

fun handler :: "exn \<Rightarrow> string" where
  "handler (WaitTimeoutError m) = ''No speech detected. Time limit exceeded.''"
| "handler x = ''An unexpected error occurred: '' @ str_exn x"

text \<open>
  Lines 44-70. Opening the microphone and the calibration stand before the
  \<^verbatim>\<open>try\<close>: what they raise reaches the caller. The result is what the call
  returns (\<open>Inr\<close>) or raises (\<open>Inl\<close>), with the state it leaves.
\<close>

definition transcribe_speech ::
  "env \<Rightarrow> app \<Rightarrow> string \<Rightarrow> string \<Rightarrow> int \<Rightarrow> int \<Rightarrow> (exn + string) \<times> app" where
  "transcribe_speech e s api_choice language_choice timeout phrase_time_limit =
     (case microphone_enter e of
        Some x \<Rightarrow> (Inl x, s)
      | None \<Rightarrow>
          (case adjust_for_ambient_noise e of
             Some x \<Rightarrow> (Inl x, s)
           | None \<Rightarrow>
               (let s1 = st_info s (''Speak now in '' @ language_choice @ ''...'')
                in case listen e timeout phrase_time_limit of
                     Inl x \<Rightarrow> (Inr (handler x), s1)
                   | Inr audio \<Rightarrow>
                       (case dispatch e s1 api_choice language_choice audio of
                          (Inl x, s2) \<Rightarrow> (Inr (handler x), s2)
                        | (Inr text, s2) \<Rightarrow> (Inr text, s2)))))"

subsection \<open>\<^verbatim>\<open>create_download_file\<close>\<close>

text \<open>
  Lines 73-86. \<^verbatim>\<open>not text\<close> holds of the empty string. Otherwise the text is
  written to a new file, whose path is returned.
\<close>

definition create_download_file :: "env \<Rightarrow> app \<Rightarrow> string \<Rightarrow> string option \<times> app" where
  "create_download_file e s text =
     (if text = [] \<or> text = ''No speech detected. Time limit exceeded.''
      then (None, st_warning s ''No valid transcription to save.'')
      else (let temp_file_path = temp_name e ''transcription_'' ''.txt''
            in (Some temp_file_path, s\<lparr>files := (files s)(temp_file_path \<mapsto> text)\<rparr>)))"

subsection \<open>Stub collaborators\<close>

text \<open>
  A collaborator whose microphone opens, whose \<^verbatim>\<open>listen\<close> always ends as \<open>l\<close> and
  whose two recognisers always end as \<open>r\<close>.
\<close>

definition stub :: "exn + audio \<Rightarrow> exn + string \<Rightarrow> env" where
  "stub l r =
     \<lparr>microphone_enter = None,
      adjust_for_ambient_noise = None,
      listen = (\<lambda>timeout phrase_time_limit. l),
      recognize_google = (\<lambda>audio language. r),
      recognize_sphinx = (\<lambda>audio language. r),
      temp_name = (\<lambda>prefix suffix. ''/tmp/'' @ prefix @ ''k3x9'' @ suffix)\<rparr>"

subsection \<open>The template of the specification\<close>

text \<open>
  The two message templates as the specification words them (section 4.1), to be compared
  with the messages of the wrappers.
\<close>

definition spec_unintelligible_text :: "string \<Rightarrow> string" where
  "spec_unintelligible_text backend_name = backend_name @ '' could not understand the audio''"

definition spec_unavailable_text :: "string \<Rightarrow> string \<Rightarrow> string" where
  "spec_unavailable_text backend_name diagnostic =
     ''Could not request results from '' @ backend_name @ '': '' @ diagnostic"

section \<open>Properties\<close>

subsection \<open>Shared facts\<close>

lemma dict_get_absent: "k \<notin> dom d \<Longrightarrow> dict_get d k dflt = dflt"
  by (auto simp: dict_get_def split: option.splits)

lemma dispatch_fst:
  "fst (dispatch e s api_choice language_choice audio)
     = dict_get (recognition_apis e) api_choice (recognize_with_google e) audio
         (dict_get languages language_choice ''en-US'')"
  by (simp add: dispatch_def Let_def split: sum.splits)





lemma transcribe_speech_google_text:
  assumes "microphone_enter e = None" and "adjust_for_ambient_noise e = None"
    and "listen e t p = Inr a"
    and "dict_get (recognition_apis e) api (recognize_with_google e) = recognize_with_google e"
  shows "fst (transcribe_speech e s api lc t p)
           = Inr (case recognize_google e a (dict_get languages lc ''en-US'') of
                    Inr text \<Rightarrow> text
                  | Inl (UnknownValueError m) \<Rightarrow>
                      ''Google Speech Recognition could not understand the audio''
                  | Inl (RequestError m) \<Rightarrow>
                      ''Could not request results from Google Speech Recognition service; '' @ m
                  | Inl (WaitTimeoutError m) \<Rightarrow> ''No speech detected. Time limit exceeded.''
                  | Inl (OtherException m) \<Rightarrow> ''An unexpected error occurred: '' @ m)"
  using assms
  by (simp add: transcribe_speech_def dispatch_def Let_def recognize_with_google_def
      split: sum.splits exn.splits)


lemma registry_google:
  "dict_get (recognition_apis e) ''Google Speech Recognition'' (recognize_with_google e)
     = recognize_with_google e"
  by (simp add: dict_get_def recognition_apis_def)



subsection \<open>What \<^verbatim>\<open>transcribe_speech\<close> returns\<close>




subsection \<open>The messages of the wrappers\<close>

text \<open>
  Claim C2, as stated, fails: for a \<^verbatim>\<open>RequestError\<close> with diagnostic \<open>x\<close> neither
  wrapper returns the text of the template "Could not request results from
  <BackendName>: <diagnostic>", whether the Sphinx backend is named by its message
  (\<open>Sphinx\<close>) or by its registry key.
\<close>

theorem unavailable_template_counterexample:
  "recognize_with_sphinx (stub (Inr []) (Inl (RequestError ''x''))) [] ''en-US''
     \<noteq> Inr (spec_unavailable_text ''Sphinx'' ''x'') \<and>
   recognize_with_sphinx (stub (Inr []) (Inl (RequestError ''x''))) [] ''en-US''
     \<noteq> Inr (spec_unavailable_text ''Sphinx (Offline)'' ''x'') \<and>
   recognize_with_google (stub (Inr []) (Inl (RequestError ''x''))) [] ''en-US''
     \<noteq> Inr (spec_unavailable_text ''Google Speech Recognition'' ''x'')"
  by (simp add: recognize_with_sphinx_def recognize_with_google_def stub_def
      spec_unavailable_text_def)

text \<open>
  Claim C2, amended. When the library raises \<^verbatim>\<open>UnknownValueError\<close>, each wrapper
  returns the template "<BackendName> could not understand the audio", with the names
  \<open>Google Speech Recognition\<close> and \<open>Sphinx\<close>. When it raises \<^verbatim>\<open>RequestError\<close>
  with diagnostic \<open>d\<close>, the Google wrapper returns "Could not request results from
  Google Speech Recognition service; d" and the Sphinx wrapper "Sphinx error: d".
\<close>

theorem backend_failure_texts:
  "(recognize_google e a l = Inl (UnknownValueError m) \<longrightarrow>
      recognize_with_google e a l
        = Inr (spec_unintelligible_text ''Google Speech Recognition'')) \<and>
   (recognize_sphinx e a ''en-US'' = Inl (UnknownValueError m) \<longrightarrow>
      recognize_with_sphinx e a l = Inr (spec_unintelligible_text ''Sphinx'')) \<and>
   (recognize_google e a l = Inl (RequestError d) \<longrightarrow>
      recognize_with_google e a l
        = Inr (''Could not request results from Google Speech Recognition service; '' @ d)) \<and>
   (recognize_sphinx e a ''en-US'' = Inl (RequestError d) \<longrightarrow>
      recognize_with_sphinx e a l = Inr (''Sphinx error: '' @ d))"
  by (simp add: recognize_with_google_def recognize_with_sphinx_def
      spec_unintelligible_text_def)

theorem backend_failure_texts_witness:
  "recognize_google (stub (Inr []) (Inl (UnknownValueError []))) [] ''fr-FR''
     = Inl (UnknownValueError []) \<and>
   recognize_with_google (stub (Inr []) (Inl (UnknownValueError []))) [] ''fr-FR''
     = Inr ''Google Speech Recognition could not understand the audio'' \<and>
   recognize_sphinx (stub (Inr []) (Inl (UnknownValueError []))) [] ''en-US''
     = Inl (UnknownValueError []) \<and>
   recognize_with_sphinx (stub (Inr []) (Inl (UnknownValueError []))) [] ''fr-FR''
     = Inr ''Sphinx could not understand the audio'' \<and>
   recognize_google (stub (Inr []) (Inl (RequestError ''x''))) [] ''fr-FR''
     = Inl (RequestError ''x'') \<and>
   recognize_with_google (stub (Inr []) (Inl (RequestError ''x''))) [] ''fr-FR''
     = Inr ''Could not request results from Google Speech Recognition service; x'' \<and>
   recognize_sphinx (stub (Inr []) (Inl (RequestError ''x''))) [] ''en-US''
     = Inl (RequestError ''x'') \<and>
   recognize_with_sphinx (stub (Inr []) (Inl (RequestError ''x''))) [] ''fr-FR''
     = Inr ''Sphinx error: x''"
  using backend_failure_texts
          [of "stub (Inr []) (Inl (UnknownValueError []))" "[]" "''fr-FR''" "[]" "''x''"]
        backend_failure_texts
          [of "stub (Inr []) (Inl (RequestError ''x''))" "[]" "''fr-FR''" "[]" "''x''"]
  by (simp add: stub_def spec_unintelligible_text_def)

subsection \<open>Repeated calls\<close>

text \<open>
  Claim C7. With deterministic collaborators, a second call with the same backend id and
  the same inputs, made in the state the first call left, returns what the first call
  returned: for the dispatch step on a given sample, and for \<^verbatim>\<open>transcribe_speech\<close>
  as a whole. The stored \<^verbatim>\<open>last_transcription\<close> is never read.
\<close>

theorem dispatch_repeatable:
  "fst (dispatch e (snd (dispatch e s api_choice lc a)) api_choice lc a)
     = fst (dispatch e s api_choice lc a) \<and>
   fst (transcribe_speech e (snd (transcribe_speech e s api_choice lc t p)) api_choice lc t p)
     = fst (transcribe_speech e s api_choice lc t p)"
proof -
  have ts: "fst (transcribe_speech e s1 api_choice lc t p)
              = fst (transcribe_speech e s2 api_choice lc t p)" for s1 s2
    by (simp add: transcribe_speech_def dispatch_def Let_def
        split: option.splits sum.splits prod.splits)
  have d: "fst (dispatch e (snd (dispatch e s api_choice lc a)) api_choice lc a)
             = fst (dispatch e s api_choice lc a)"
    by (simp only: dispatch_fst)
  from d ts [of "snd (transcribe_speech e s api_choice lc t p)" s] show ?thesis
    by (rule conjI)
qed

subsection \<open>The Sphinx wrapper and its language argument\<close>

text \<open>
  Claim C9. For every audio sample and any two language tags,
  \<^verbatim>\<open>recognize_with_sphinx\<close> returns the same result: the argument is ignored, the
  library being called with its default.
\<close>

theorem sphinx_ignores_language:
  "recognize_with_sphinx e a l1 = recognize_with_sphinx e a l2"
  by (simp add: recognize_with_sphinx_def)

subsection \<open>The export step\<close>

text \<open>
  Claim C8. Given the text "No speech detected. Time limit exceeded.", or the empty text,
  \<^verbatim>\<open>create_download_file\<close> returns \<^verbatim>\<open>None\<close>; it shows a warning and writes no
  file.
\<close>

theorem create_download_file_rejects_no_speech:
  "create_download_file e s [] = (None, st_warning s ''No valid transcription to save.'') \<and>
   create_download_file e s ''No speech detected. Time limit exceeded.''
     = (None, st_warning s ''No valid transcription to save.'') \<and>
   files (st_warning s ''No valid transcription to save.'') = files s"
  by (simp add: create_download_file_def st_warning_def)

subsection \<open>The two lookups and their defaults\<close>

text \<open>
  Claim C3. For every backend id that is not a key of the registry, the dispatch step
  returns what the Google wrapper returns for the sample and the resolved language tag;
  the dispatch step and \<^verbatim>\<open>transcribe_speech\<close> do exactly what they do for the
  id "Google Speech Recognition"; and whenever a sample was captured for the dispatch,
  the call returns a string, namely the transcript or one of the texts of the Google
  wrapper and of the two handlers. No failure for the unknown id exists.
\<close>

theorem unknown_backend_falls_back:
  "api_choice \<notin> dom (recognition_apis e) \<Longrightarrow>
     fst (dispatch e s api_choice lc a)
       = recognize_with_google e a (dict_get languages lc ''en-US'') \<and>
     dispatch e s api_choice lc a = dispatch e s ''Google Speech Recognition'' lc a \<and>
     transcribe_speech e s api_choice lc t p
       = transcribe_speech e s ''Google Speech Recognition'' lc t p \<and>
     (microphone_enter e = None \<and> adjust_for_ambient_noise e = None \<and> listen e t p = Inr a
        \<longrightarrow>
      fst (transcribe_speech e s api_choice lc t p)
        = Inr (case recognize_google e a (dict_get languages lc ''en-US'') of
                 Inr text \<Rightarrow> text
               | Inl (UnknownValueError m) \<Rightarrow>
                   ''Google Speech Recognition could not understand the audio''
               | Inl (RequestError m) \<Rightarrow>
                   ''Could not request results from Google Speech Recognition service; '' @ m
               | Inl (WaitTimeoutError m) \<Rightarrow> ''No speech detected. Time limit exceeded.''
               | Inl (OtherException m) \<Rightarrow> ''An unexpected error occurred: '' @ m))"
proof -
  assume absent: "api_choice \<notin> dom (recognition_apis e)"
  have r: "dict_get (recognition_apis e) api_choice (recognize_with_google e)
             = recognize_with_google e"
    using absent by (rule dict_get_absent)
  have f: "fst (dispatch e s api_choice lc a)
             = recognize_with_google e a (dict_get languages lc ''en-US'')"
    unfolding dispatch_fst r by (rule refl)
  have d: "dispatch e s' api_choice lc a' = dispatch e s' ''Google Speech Recognition'' lc a'"
    for s' a'
    unfolding dispatch_def r registry_google by (rule refl)
  have t: "transcribe_speech e s api_choice lc t p
             = transcribe_speech e s ''Google Speech Recognition'' lc t p"
    unfolding transcribe_speech_def d by (rule refl)
  have x: "microphone_enter e = None \<and> adjust_for_ambient_noise e = None \<and> listen e t p = Inr a
        \<longrightarrow>
      fst (transcribe_speech e s api_choice lc t p)
        = Inr (case recognize_google e a (dict_get languages lc ''en-US'') of
                 Inr text \<Rightarrow> text
               | Inl (UnknownValueError m) \<Rightarrow>
                   ''Google Speech Recognition could not understand the audio''
               | Inl (RequestError m) \<Rightarrow>
                   ''Could not request results from Google Speech Recognition service; '' @ m
               | Inl (WaitTimeoutError m) \<Rightarrow> ''No speech detected. Time limit exceeded.''
               | Inl (OtherException m) \<Rightarrow> ''An unexpected error occurred: '' @ m)"
    using r by (simp add: transcribe_speech_google_text)
  from f d t x show ?thesis by (intro conjI)
qed

theorem unknown_backend_falls_back_witness:
  "''Whisper'' \<notin> dom (recognition_apis (stub (Inr [7]) (Inl (UnknownValueError [])))) \<and>
   fst (dispatch (stub (Inr [7]) (Inl (UnknownValueError []))) init ''Whisper'' ''French'' [7])
     = Inr ''Google Speech Recognition could not understand the audio'' \<and>
   dispatch (stub (Inr [7]) (Inl (UnknownValueError []))) init ''Whisper'' ''French'' [7]
     = dispatch (stub (Inr [7]) (Inl (UnknownValueError []))) init
         ''Google Speech Recognition'' ''French'' [7] \<and>
   transcribe_speech (stub (Inr [7]) (Inl (UnknownValueError []))) init ''Whisper'' ''French'' 5 10
     = transcribe_speech (stub (Inr [7]) (Inl (UnknownValueError []))) init
         ''Google Speech Recognition'' ''French'' 5 10 \<and>
   (microphone_enter (stub (Inr [7]) (Inl (UnknownValueError []))) = None \<and>
    adjust_for_ambient_noise (stub (Inr [7]) (Inl (UnknownValueError []))) = None \<and>
    listen (stub (Inr [7]) (Inl (UnknownValueError []))) 5 10 = Inr [7]) \<and>
   fst (transcribe_speech (stub (Inr [7]) (Inl (UnknownValueError []))) init ''Whisper''
          ''French'' 5 10)
     = Inr ''Google Speech Recognition could not understand the audio''"
proof -
  have absent: "''Whisper'' \<notin> dom (recognition_apis (stub (Inr [7]) (Inl (UnknownValueError []))))"
    by (simp add: recognition_apis_def)
  have cap: "microphone_enter (stub (Inr [7]) (Inl (UnknownValueError []))) = None \<and>
    adjust_for_ambient_noise (stub (Inr [7]) (Inl (UnknownValueError []))) = None \<and>
    listen (stub (Inr [7]) (Inl (UnknownValueError []))) 5 10 = Inr [7]"
    by (simp add: stub_def)
  have g: "recognize_google (stub (Inr [7]) (Inl (UnknownValueError []))) [7] lang
             = Inl (UnknownValueError [])" for lang
    by (simp add: stub_def)
  note u = unknown_backend_falls_back [OF absent, of init "''French''" "[7]" 5 10]
  from u [THEN conjunct1]
  have f: "fst (dispatch (stub (Inr [7]) (Inl (UnknownValueError []))) init ''Whisper''
       ''French'' [7])
     = Inr ''Google Speech Recognition could not understand the audio''"
    by (simp add: recognize_with_google_def g)
  from u [THEN conjunct2, THEN conjunct2, THEN conjunct2, rule_format, OF cap]
  have x: "fst (transcribe_speech (stub (Inr [7]) (Inl (UnknownValueError []))) init
       ''Whisper'' ''French'' 5 10)
     = Inr ''Google Speech Recognition could not understand the audio''"
    by (simp add: g)
  from u have d: "dispatch (stub (Inr [7]) (Inl (UnknownValueError []))) init ''Whisper'' ''French'' [7]
     = dispatch (stub (Inr [7]) (Inl (UnknownValueError []))) init
         ''Google Speech Recognition'' ''French'' [7]"
    by (rule conjunct2 [THEN conjunct1])
  from u have t: "transcribe_speech (stub (Inr [7]) (Inl (UnknownValueError []))) init ''Whisper''
       ''French'' 5 10
     = transcribe_speech (stub (Inr [7]) (Inl (UnknownValueError []))) init
         ''Google Speech Recognition'' ''French'' 5 10"
    by (rule conjunct2 [THEN conjunct2, THEN conjunct1])
  from cap have cm: "microphone_enter (stub (Inr [7]) (Inl (UnknownValueError []))) = None"
    and ca: "adjust_for_ambient_noise (stub (Inr [7]) (Inl (UnknownValueError []))) = None"
    and cl: "listen (stub (Inr [7]) (Inl (UnknownValueError []))) 5 10 = Inr [7]"
    by (rule conjunct1, rule conjunct2 [THEN conjunct1], rule conjunct2 [THEN conjunct2])
  from absent f d t cm ca cl x show ?thesis
    by (intro conjI)
qed

text \<open>
  Claim C6. For every language choice that is not a key of the language table, the tag
  handed to the backend is "en-US": the dispatch step returns what the resolved backend
  returns for that tag, and does exactly what it does for the choice "English (US)".
\<close>

theorem unsupported_language_defaults:
  "language_choice \<notin> dom languages \<Longrightarrow>
     dict_get languages language_choice ''en-US'' = ''en-US'' \<and>
     fst (dispatch e s api_choice language_choice a)
       = dict_get (recognition_apis e) api_choice (recognize_with_google e) a ''en-US'' \<and>
     dispatch e s api_choice language_choice a = dispatch e s api_choice ''English (US)'' a"
proof -
  assume absent: "language_choice \<notin> dom languages"
  have r: "dict_get languages language_choice ''en-US'' = ''en-US''"
    using absent by (rule dict_get_absent)
  have en: "dict_get languages ''English (US)'' ''en-US'' = ''en-US''"
    by (simp add: dict_get_def languages_def)
  have f: "fst (dispatch e s api_choice language_choice a)
       = dict_get (recognition_apis e) api_choice (recognize_with_google e) a ''en-US''"
    unfolding dispatch_fst r by (rule refl)
  have d: "dispatch e s api_choice language_choice a = dispatch e s api_choice ''English (US)'' a"
    unfolding dispatch_def r en by (rule refl)
  from r f d show ?thesis by simp
qed

theorem unsupported_language_defaults_witness:
  "''fr-FR'' \<notin> dom languages \<and>
   dict_get languages ''fr-FR'' ''en-US'' = ''en-US'' \<and>
   fst (dispatch (stub (Inr [7]) (Inr ''hello'')) init ''Sphinx (Offline)'' ''fr-FR'' [7])
     = dict_get (recognition_apis (stub (Inr [7]) (Inr ''hello''))) ''Sphinx (Offline)''
         (recognize_with_google (stub (Inr [7]) (Inr ''hello''))) [7] ''en-US'' \<and>
   dispatch (stub (Inr [7]) (Inr ''hello'')) init ''Sphinx (Offline)'' ''fr-FR'' [7]
     = dispatch (stub (Inr [7]) (Inr ''hello'')) init ''Sphinx (Offline)'' ''English (US)'' [7]"
proof -
  have absent: "''fr-FR'' \<notin> dom languages"
    by (simp add: languages_def)
  from absent unsupported_language_defaults [OF absent, of "stub (Inr [7]) (Inr ''hello'')" init "''Sphinx (Offline)''" "[7]"]
  show ?thesis
    by (rule conjI)
qed

subsection \<open>The effects of the dispatch step\<close>

text \<open>
  Claim C5, as stated, fails: from the initial state, a dispatch whose backend returns
  \<open>hello\<close> leaves \<^verbatim>\<open>last_transcription\<close> changed from the empty string to
  \<open>hello\<close> and one more message on the screen.
\<close>

theorem dispatch_mutates_state_counterexample:
  "last_transcription (snd (dispatch (stub (Inr []) (Inr ''hello'')) init
      ''Google Speech Recognition'' ''English (US)'' [1, 2, 3])) = ''hello'' \<and>
   last_transcription init = [] \<and>
   ui (snd (dispatch (stub (Inr []) (Inr ''hello'')) init
      ''Google Speech Recognition'' ''English (US)'' [1, 2, 3])) = [Info ''Processing audio...''] \<and>
   ui init = [] \<and>
   snd (dispatch (stub (Inr []) (Inr ''hello'')) init
      ''Google Speech Recognition'' ''English (US)'' [1, 2, 3]) \<noteq> init"
  by (simp add: dispatch_def dict_get_def recognition_apis_def languages_def
      recognize_with_google_def stub_def init_def st_info_def Let_def)

text \<open>
  Claim C5, amended. The dispatch step has exactly these effects besides returning: it
  shows the message "Processing audio..." and, when the backend wrapper returns a text,
  stores that text in \<^verbatim>\<open>last_transcription\<close>; when the wrapper raises,
  \<^verbatim>\<open>last_transcription\<close> keeps its value. It writes no file.
\<close>

theorem dispatch_effects:
  "files (snd (dispatch e s api_choice lc a)) = files s \<and>
   ui (snd (dispatch e s api_choice lc a)) = ui s @ [Info ''Processing audio...''] \<and>
   last_transcription (snd (dispatch e s api_choice lc a))
     = (case fst (dispatch e s api_choice lc a) of
          Inr text \<Rightarrow> text | Inl x \<Rightarrow> last_transcription s)"
  by (simp add: dispatch_def Let_def st_info_def split: sum.splits)

subsection \<open>When \<^verbatim>\<open>last_transcription\<close> changes\<close>



subsection \<open>Error texts and the export step\<close>

text \<open>
  Claim C4 does not hold of the code. When the Google recogniser does not understand the
  audio, \<^verbatim>\<open>transcribe_speech\<close> returns the text "Google Speech Recognition could
  not understand the audio"; given that text, \<^verbatim>\<open>create_download_file\<close> writes it
  to a new file and returns the path. Only the empty text and the no-speech text are
  refused.
\<close>

theorem create_download_file_saves_error_text:
  "fst (transcribe_speech (stub (Inr [1, 2, 3]) (Inl (UnknownValueError []))) init
          ''Google Speech Recognition'' ''English (US)'' 5 10)
     = Inr ''Google Speech Recognition could not understand the audio'' \<and>
   fst (create_download_file (stub (Inr [1, 2, 3]) (Inl (UnknownValueError []))) init
          ''Google Speech Recognition could not understand the audio'')
     = Some ''/tmp/transcription_k3x9.txt'' \<and>
   files (snd (create_download_file (stub (Inr [1, 2, 3]) (Inl (UnknownValueError []))) init
          ''Google Speech Recognition could not understand the audio''))
      ''/tmp/transcription_k3x9.txt''
     = Some ''Google Speech Recognition could not understand the audio''"
  by (simp add: transcribe_speech_def dispatch_def dict_get_def recognition_apis_def
      languages_def recognize_with_google_def create_download_file_def stub_def init_def
      st_info_def Let_def)

end
